theory Spec2Isabelle
  imports Main "HOL-Library.Word"
begin

section \<open>A shallow embedding of \<open>check_cc2652p.py\<close>\<close>

text \<open>
  The script talks to a Zigbee module over a serial port: it asks \<open>fuser\<close> whether the
  port is held by another process, writes the SYS version request, reads the reply and
  prints the decoded fields. Everything the script does to the outside world (lines
  printed, shell commands run, serial-port operations) is recorded as an event of a
  trace; a Python computation is a function from the trace so far to an outcome (an
  exception or a value) and the extended trace.
\<close>

subsection \<open>Bytes, exceptions, events\<close>

type_synonym byte = "8 word"
type_synonym bytes = "byte list"

text \<open>
  The exceptions that occur: those below \<open>Exception\<close> in Python's hierarchy (caught by
  \<open>except Exception\<close>), each with the text of \<open>str(e)\<close>, and \<open>SystemExit\<close>, which is a
  \<open>BaseException\<close> only and passes through every handler of the script.
\<close>

datatype exception =
    IndexError string
  | SerialException string
  | OtherException string

datatype base_exception =
    Exception exception
  | SystemExit int

fun str_exception :: "exception \<Rightarrow> string" where
  "str_exception (IndexError m) = m"
| "str_exception (SerialException m) = m"
| "str_exception (OtherException m) = m"

datatype event =
    Print string
  | Popen string
  | SerialOpen string int int
  | Flock
  | ResetInputBuffer
  | Write bytes
  | Sleep nat
  | InWaiting
  | Read nat
  | SerialClose

type_synonym 'a py = "event list \<Rightarrow> (base_exception + 'a) \<times> event list"

definition ret :: "'a \<Rightarrow> 'a py" where
  "ret v tr = (Inr v, tr)"

definition raise :: "base_exception \<Rightarrow> 'a py" where
  "raise e tr = (Inl e, tr)"

definition py_bind :: "'a py \<Rightarrow> ('a \<Rightarrow> 'b py) \<Rightarrow> 'b py" where
  "py_bind m f tr = (case m tr of (Inl e, tr') \<Rightarrow> (Inl e, tr') | (Inr v, tr') \<Rightarrow> f v tr')"

definition py_then :: "unit py \<Rightarrow> 'a py \<Rightarrow> 'a py" where
  "py_then m n = py_bind m (\<lambda>_. n)"

text \<open>A block of statements, run in order until one raises.\<close>

primrec py_block :: "unit py list \<Rightarrow> unit py" where
  "py_block [] = ret ()"
| "py_block (s # ss) = py_then s (py_block ss)"

definition py_when :: "bool \<Rightarrow> unit py \<Rightarrow> unit py" where
  "py_when b m = (if b then m else ret ())"

definition emit :: "event \<Rightarrow> unit py" where
  "emit ev tr = (Inr (), tr @ [ev])"

definition print_line :: "string \<Rightarrow> unit py" where
  "print_line s = emit (Print s)"

text \<open>
  \<open>try: m except Exception as e: h e\<close>. An exception raised inside the handler
  propagates; \<open>SystemExit\<close> is not caught.
\<close>

definition try_except :: "'a py \<Rightarrow> (exception \<Rightarrow> 'a py) \<Rightarrow> 'a py" where
  "try_except m h tr =
     (case m tr of
        (Inl (Exception e), tr') \<Rightarrow> h e tr'
      | (Inl (SystemExit c), tr') \<Rightarrow> (Inl (SystemExit c), tr')
      | (Inr v, tr') \<Rightarrow> (Inr v, tr'))"

text \<open>
  \<open>with ... : body\<close>: the exit action runs however the body ends. \<open>Serial.__exit__\<close>
  returns nothing, so an exception of the body is not suppressed; an exception of the
  exit action itself replaces the body's outcome.
\<close>

definition py_with :: "'a py \<Rightarrow> unit py \<Rightarrow> 'a py" where
  "py_with body exit_action tr =
     (case body tr of (r, tr1) \<Rightarrow>
        (case exit_action tr1 of
           (Inl e, tr2) \<Rightarrow> (Inl e, tr2)
         | (Inr _, tr2) \<Rightarrow> (r, tr2)))"

text \<open>
  A call into a library or the operating system: the attempt is recorded, then the
  call returns its value or raises.
\<close>

definition lib_call :: "event \<Rightarrow> exception + 'a \<Rightarrow> 'a py" where
  "lib_call ev r =
     py_then (emit ev) (case r of Inl e \<Rightarrow> raise (Exception e) | Inr v \<Rightarrow> ret v)"

subsection \<open>Python's built-in operations on bytes and strings\<close>

text \<open>\<open>bytes.hex()\<close>: two lower-case hexadecimal digits per byte.\<close>

definition hex_digit :: "nat \<Rightarrow> char" where
  "hex_digit n = ''0123456789abcdef'' ! n"

definition hex_byte :: "byte \<Rightarrow> string" where
  "hex_byte b = [hex_digit (unat b div 16), hex_digit (unat b mod 16)]"

definition bytes_hex :: "bytes \<Rightarrow> string" where
  "bytes_hex bs = concat (map hex_byte bs)"

text \<open>
  \<open>str(n)\<close> for a non-negative integer, as an f-string renders an element of a
  \<open>bytes\<close> object.
\<close>

fun str_nat :: "nat \<Rightarrow> string" where
  "str_nat n =
     (if n < 10 then [''0123456789'' ! n]
      else str_nat (n div 10) @ [''0123456789'' ! (n mod 10)])"

declare str_nat.simps [simp del]

definition str_byte :: "byte \<Rightarrow> string" where
  "str_byte b = str_nat (unat b)"

text \<open>
  \<open>response[i]\<close> for a literal index \<open>i \<ge> 0\<close>: \<open>IndexError\<close> outside the range.
  \<open>response[i:j]\<close> and \<open>response[i:]\<close> never raise: a slice is cut at the end of
  the data.
\<close>

definition getitem :: "bytes \<Rightarrow> nat \<Rightarrow> byte py" where
  "getitem bs i =
     (if i < length bs then ret (bs ! i)
      else raise (Exception (IndexError ''index out of range'')))"

definition slice_bytes :: "bytes \<Rightarrow> nat \<Rightarrow> nat \<Rightarrow> bytes" where
  "slice_bytes bs i j = take (j - i) (drop i bs)"

definition slice_bytes_from :: "bytes \<Rightarrow> nat \<Rightarrow> bytes" where
  "slice_bytes_from bs i = drop i bs"

definition startswith :: "bytes \<Rightarrow> bytes \<Rightarrow> bool" where
  "startswith bs p = (take (length p) bs = p)"

text \<open>The em dash of the messages, as the three bytes of its UTF-8 encoding.\<close>

definition em_dash :: string where
  "em_dash = [CHR 0xE2, CHR 0x80, CHR 0x94]"

subsection \<open>The checker object\<close>

record checker =
  port :: string
  baudrate :: int
  timeout :: int
  custom_command :: "string option"
  debug :: bool

subsection \<open>The frame decoder\<close>

definition process_version :: "checker \<Rightarrow> bytes \<Rightarrow> string \<Rightarrow> unit py" where
  "process_version self response chip_type =
     py_then
       (py_when (debug self) (print_line (''Parsing response: '' @ bytes_hex response)))
       (try_except
          (py_bind (getitem response 4) (\<lambda>transport_version.
           py_bind (getitem response 5) (\<lambda>product_id.
           py_bind (getitem response 6) (\<lambda>major_release.
           py_bind (getitem response 7) (\<lambda>minor_release.
           py_bind (getitem response 8) (\<lambda>maintenance_release.
           py_bind (ret (slice_bytes response 9 14)) (\<lambda>revision.
           py_block
             [print_line (''SYS Version response detected for '' @ chip_type @ '':''),
              print_line (''Transport Version: '' @ str_byte transport_version),
              print_line (''Product ID: '' @ str_byte product_id @ '' '' @ em_dash @ '' ''
                  @ chip_type @ '' Zigbee Module.''),
              print_line (''Major Release: '' @ str_byte major_release),
              print_line (''Minor Release: '' @ str_byte minor_release),
              print_line (''Maintenance Release: '' @ str_byte maintenance_release),
              print_line (''Stack Version: '' @ str_byte major_release @ ''.''
                  @ str_byte minor_release @ ''.'' @ str_byte maintenance_release
                  @ '' '' @ em_dash @ '' Indicates Z-Stack compatibility.''),
              print_line (''Revision: '' @ bytes_hex revision @ '' '' @ em_dash
                  @ '' Firmware Revision Details.'')])))))))
          (\<lambda>e. print_line (''Error while parsing the response: '' @ str_exception e)))"

definition process_version_response :: "checker \<Rightarrow> bytes \<Rightarrow> unit py" where
  "process_version_response self response =
     py_then
       (py_when (debug self)
          (print_line (''Raw response received: '' @ bytes_hex response)))
       (if response = [] then print_line ''No response received.''
        else
          py_then
            (if startswith response [0xFE, 0x0A, 0x61, 0x02]
               then process_version self response ''CC2652''
             else if startswith response [0xFE, 0x0E, 0x61, 0x02]
               then process_version self response ''CC2530''
             else if startswith response [0xFE, 0x10, 0x61, 0x02]
               then process_version self response ''CC2538''
             else
               py_block
                 [print_line ''Unknown chip detected. Skipping specialized parsing.'',
                  print_line (''Raw response: '' @ bytes_hex response)])
            (py_when (length response > 14)
               (py_bind (ret (slice_bytes_from response 14)) (\<lambda>async_data.
                py_block
                  [print_line ''Additional asynchronous data detected. Skipping:'',
                   print_line (''Raw data: '' @ bytes_hex async_data)]))))"

subsection \<open>Strings of the port check\<close>

text \<open>
  A character stands for a code point below 256; these are the ones for which
  \<open>str.isspace()\<close> holds, and so the ones \<open>strip()\<close> and \<open>split()\<close> remove.
\<close>

definition isspace :: "char \<Rightarrow> bool" where
  "isspace c = (of_char c \<in> {9, 10, 11, 12, 13, 28, 29, 30, 31, 32, 133, 160 :: nat})"

definition strip :: "string \<Rightarrow> string" where
  "strip s = rev (dropWhile isspace (rev (dropWhile isspace s)))"

text \<open>
  \<open>s.split()\<close>: the maximal runs of non-space characters, in order. The first
  argument is the run read so far.
\<close>

fun split_from :: "string \<Rightarrow> string \<Rightarrow> string list" where
  "split_from cur [] = (if cur = [] then [] else [cur])"
| "split_from cur (c # cs) =
     (if isspace c then (if cur = [] then split_from [] cs else cur # split_from [] cs)
      else split_from (cur @ [c]) cs)"

definition split :: "string \<Rightarrow> string list" where
  "split s = split_from [] s"

fun join :: "string \<Rightarrow> string list \<Rightarrow> string" where
  "join sep [] = []"
| "join sep [x] = x"
| "join sep (x # y # ys) = x @ sep @ join sep (y # ys)"

text \<open>
  \<open>list(filter(None, names))\<close> keeps the true elements: a name that is neither
  \<open>None\<close> nor the empty string.
\<close>

fun filter_none :: "string option list \<Rightarrow> string list" where
  "filter_none [] = []"
| "filter_none (None # xs) = filter_none xs"
| "filter_none (Some s # xs) = (if s = [] then filter_none xs else s # filter_none xs)"

text \<open>A list comprehension whose element expression has effects.\<close>

primrec py_map :: "('a \<Rightarrow> 'b py) \<Rightarrow> 'a list \<Rightarrow> 'b list py" where
  "py_map f [] = ret []"
| "py_map f (x # xs) = py_bind (f x) (\<lambda>y. py_bind (py_map f xs) (\<lambda>ys. ret (y # ys)))"

subsection \<open>The environment\<close>

text \<open>
  What the operating system and the serial library answer: the text read from a shell
  command, the outcome of each serial-port operation. Each may fail with an exception
  below \<open>Exception\<close>.
\<close>

record env =
  popen_read :: "string \<Rightarrow> exception + string"
  serial_open :: "exception + unit"
  serial_flock :: "exception + unit"
  serial_reset_input_buffer :: "exception + unit"
  serial_write :: "bytes \<Rightarrow> exception + unit"
  serial_in_waiting :: "exception + nat"
  serial_read :: "nat \<Rightarrow> exception + bytes"
  serial_close :: "exception + unit"

subsection \<open>The transport gate\<close>

definition get_process_name_by_pid :: "env \<Rightarrow> string \<Rightarrow> string option py" where
  "get_process_name_by_pid e pid =
     try_except
       (py_bind
          (lib_call (Popen (''ps -p '' @ pid @ '' -o comm='')) (popen_read e (''ps -p '' @ pid @ '' -o comm='')))
          (\<lambda>out. py_bind (ret (strip out)) (\<lambda>process_info. ret (Some process_info))))
       (\<lambda>ex. ret None)"

definition check_port_availability :: "checker \<Rightarrow> env \<Rightarrow> bool py" where
  "check_port_availability self e =
     try_except
       (py_bind
          (lib_call (Popen (''fuser '' @ port self)) (popen_read e (''fuser '' @ port self)))
          (\<lambda>out. py_bind (ret (strip out)) (\<lambda>fuser_output.
             if fuser_output \<noteq> [] then
               py_bind (ret (split fuser_output)) (\<lambda>pids.
               py_bind (py_map (get_process_name_by_pid e) pids) (\<lambda>names.
               py_bind (ret (filter_none names)) (\<lambda>process_names.
               py_then
                 (print_line (''The port '' @ port self @ '' is occupied by process ID(s): ''
                     @ join '', '' pids @ '' ('' @ join '', '' process_names @ '')''))
              (py_then
                 (if ''node'' \<in> set process_names then
                    py_block
                      [print_line ''The process 'node' is running on the port and might be related to zigbee2mqtt.'',
                       print_line ''Please try stopping the zigbee2mqtt service using: systemctl stop zigbee2mqtt'']
                  else print_line ''Please stop the process or release the port manually.'')
                 (ret False)))))
             else ret True)))
       (\<lambda>ex. py_then (print_line (''Error checking port availability: '' @ str_exception ex))
                (ret False))"

subsection \<open>The serial exchange\<close>

definition send_command :: "checker \<Rightarrow> env \<Rightarrow> bytes \<Rightarrow> bytes option py" where
  "send_command self e command =
     try_except
       (py_then
          (lib_call (SerialOpen (port self) (baudrate self) (timeout self)) (serial_open e))
          (py_with
             (py_then (lib_call Flock (serial_flock e))
             (py_then (lib_call ResetInputBuffer (serial_reset_input_buffer e))
             (py_then (py_when (debug self)
                         (print_line (''Sending command: '' @ bytes_hex command)))
             (py_then (lib_call (Write command) (serial_write e command))
             (py_then (emit (Sleep 500))
             (py_bind (lib_call InWaiting (serial_in_waiting e)) (\<lambda>in_waiting.
              py_bind (lib_call (Read (if in_waiting \<noteq> 0 then in_waiting else 64))
                         (serial_read e (if in_waiting \<noteq> 0 then in_waiting else 64)))
                (\<lambda>response.
                   if response = [] then
                     py_then
                       (print_line ''No response received. The module might not be working.'')
                       (ret None)
                   else ret (Some response)))))))))
             (lib_call SerialClose (serial_close e))))
       (\<lambda>ex. case ex of
           SerialException m \<Rightarrow> py_then (print_line (''Error: '' @ m)) (ret None)
         | _ \<Rightarrow> py_then (print_line (''Unexpected error: '' @ str_exception ex)) (ret None))"

subsection \<open>The orchestrator\<close>

definition version_command :: bytes where
  "version_command = [0xFE, 0x00, 0x21, 0x02, 0x23]"

definition check :: "checker \<Rightarrow> env \<Rightarrow> unit py" where
  "check self e =
     py_bind (check_port_availability self e) (\<lambda>available.
       py_then (py_when (\<not> available) (raise (SystemExit 1)))
         (py_bind (send_command self e version_command) (\<lambda>response.
            case response of
              None \<Rightarrow> ret ()
            | Some r \<Rightarrow> py_when (r \<noteq> []) (process_version_response self r))))"

text \<open>The parsed command line.\<close>

record cli_args =
  arg_port :: string
  arg_baudrate :: int
  arg_reset :: bool
  arg_version :: bool
  arg_timeout :: int
  arg_custom_command :: "string option"
  arg_debug :: bool

definition main :: "cli_args \<Rightarrow> env \<Rightarrow> unit py" where
  "main a e =
     py_bind
       (ret \<lparr>port = arg_port a, baudrate = arg_baudrate a, timeout = arg_timeout a,
             custom_command = arg_custom_command a, debug = arg_debug a\<rparr>)
       (\<lambda>checker.
          if arg_reset a then
            py_then (print_line ''Sending reset command...'') (check checker e)
          else if arg_version a \<or> \<not> arg_reset a then check checker e
          else ret ())"

text \<open>
  The exit status of the interpreter: \<open>sys.exit(c)\<close> gives \<open>c\<close>, an exception that
  nothing catches gives 1 (after the traceback), a normal end gives 0.
\<close>

fun exit_status :: "base_exception + unit \<Rightarrow> int" where
  "exit_status (Inl (SystemExit c)) = c"
| "exit_status (Inl (Exception ex)) = 1"
| "exit_status (Inr u) = 0"

definition run_script :: "cli_args \<Rightarrow> env \<Rightarrow> int \<times> event list" where
  "run_script a e = (case main a e [] of (r, tr) \<Rightarrow> (exit_status r, tr))"

subsection \<open>Observing a trace\<close>

text \<open>The byte strings written to the serial port in the course of a trace, in order.\<close>

fun written :: "event list \<Rightarrow> bytes list" where
  "written [] = []"
| "written (Write b # evs) = b # written evs"
| "written (ev # evs) = written evs"

subsection \<open>Example inputs\<close>

text \<open>
  A command line that names the port \<open>/dev/ttyMOD4\<close>, and an environment in which
  \<open>fuser\<close> prints the given text, every \<open>ps\<close> prints \<open>node\<close>, every serial
  operation succeeds and the module has answered with the given bytes.
\<close>

definition example_args :: cli_args where
  "example_args =
     \<lparr>arg_port = ''/dev/ttyMOD4'', arg_baudrate = 115200, arg_reset = False,
      arg_version = True, arg_timeout = 1, arg_custom_command = None, arg_debug = False\<rparr>"

definition example_checker :: checker where
  "example_checker =
     \<lparr>port = ''/dev/ttyMOD4'', baudrate = 115200, timeout = 1, custom_command = None,
      debug = False\<rparr>"

definition example_env :: "string \<Rightarrow> bytes \<Rightarrow> env" where
  "example_env fuser_output answer =
     \<lparr>popen_read = (\<lambda>cmd. if cmd = ''fuser /dev/ttyMOD4'' then Inr fuser_output
                          else Inr (''node'' @ [CHR 0x0A])),
      serial_open = Inr (),
      serial_flock = Inr (),
      serial_reset_input_buffer = Inr (),
      serial_write = (\<lambda>command. Inr ()),
      serial_in_waiting = Inr (length answer),
      serial_read = (\<lambda>n. Inr (take n answer)),
      serial_close = Inr ()\<rparr>"

section \<open>Properties\<close>

subsection \<open>Auxiliary facts\<close>

lemmas py_simps = ret_def raise_def py_bind_def py_then_def py_when_def emit_def print_line_def
  try_except_def py_with_def lib_call_def getitem_def slice_bytes_def slice_bytes_from_def

lemmas render_simps = str_byte_def str_nat.simps bytes_hex_def hex_byte_def hex_digit_def

lemmas string_simps = strip_def isspace_def split_def

lemma startswith_4: "startswith r [a, b, c, d] = (take 4 r = [a, b, c, d])"
proof -
  have "length [a, b, c, d] = 4" by simp
  then show ?thesis unfolding startswith_def by (simp only:)
qed

lemma revision_bytes:
  assumes "14 \<le> length r"
  shows "take 5 (drop 9 r) = [r ! 9, r ! 10, r ! 11, r ! 12, r ! 13]"
proof (rule nth_equalityI)
  show "length (take 5 (drop 9 r)) = length [r ! 9, r ! 10, r ! 11, r ! 12, r ! 13]"
    using assms by simp
next
  fix i assume "i < length (take 5 (drop 9 r))"
  then have "i < 5" by simp
  then consider "i = 0" | "i = 1" | "i = 2" | "i = 3" | "i = 4" by linarith
  then show "take 5 (drop 9 r) ! i = [r ! 9, r ! 10, r ! 11, r ! 12, r ! 13] ! i"
    using assms by cases simp_all
qed

lemma process_version_long:
  assumes "14 \<le> length r"
  shows "process_version self r chip tr =
    (Inr (), tr @ (if debug self then [Print (''Parsing response: '' @ bytes_hex r)] else []) @
     [Print (''SYS Version response detected for '' @ chip @ '':''),
      Print (''Transport Version: '' @ str_byte (r ! 4)),
      Print (''Product ID: '' @ str_byte (r ! 5) @ '' '' @ em_dash @ '' '' @ chip @ '' Zigbee Module.''),
      Print (''Major Release: '' @ str_byte (r ! 6)),
      Print (''Minor Release: '' @ str_byte (r ! 7)),
      Print (''Maintenance Release: '' @ str_byte (r ! 8)),
      Print (''Stack Version: '' @ str_byte (r ! 6) @ ''.'' @ str_byte (r ! 7) @ ''.'' @ str_byte (r ! 8)
           @ '' '' @ em_dash @ '' Indicates Z-Stack compatibility.''),
      Print (''Revision: '' @ bytes_hex [r ! 9, r ! 10, r ! 11, r ! 12, r ! 13] @ '' '' @ em_dash @ '' Firmware Revision Details.'')])"
  using assms by (simp add: process_version_def py_simps revision_bytes)

lemma process_version_appends:
  "\<exists>out. process_version self r chip tr = (Inr (), tr @ out)"
  by (simp add: process_version_def py_simps)

lemma process_version_from_empty:
  "process_version self r chip tr = (Inr (), tr @ snd (process_version self r chip []))"
  by (simp add: process_version_def py_simps)

subsection \<open>The renderings determine the bytes\<close>

text \<open>
  Different bytes are printed differently, in decimal as in hexadecimal: a printed field
  or hex dump determines the bytes it was made from.
\<close>

lemma hex_digit_inj:
  assumes "i < 16" and "j < 16" and "hex_digit i = hex_digit j"
  shows "i = j"
proof -
  have "distinct ''0123456789abcdef''" by simp
  moreover have "length ''0123456789abcdef'' = 16" by simp
  ultimately show ?thesis
    using assms unfolding hex_digit_def by (metis nth_eq_iff_index_eq)
qed

lemma hex_byte_inj:
  assumes "hex_byte a = hex_byte b"
  shows "a = b"
proof -
  have a: "unat a < 256" and b: "unat b < 256"
    using unsigned_less [of a, where ?'a = nat] unsigned_less [of b, where ?'a = nat]
    by simp_all
  from assms have "hex_digit (unat a div 16) = hex_digit (unat b div 16)"
    and "hex_digit (unat a mod 16) = hex_digit (unat b mod 16)"
    by (simp_all add: hex_byte_def)
  with a b have "unat a div 16 = unat b div 16" and "unat a mod 16 = unat b mod 16"
    by (auto intro!: hex_digit_inj simp: less_mult_imp_div_less)
  then have "unat a = unat b"
    by (metis div_mult_mod_eq)
  then show ?thesis by (simp add: word_unat_eq_iff)
qed

lemma bytes_hex_inj:
  "bytes_hex a = bytes_hex b \<Longrightarrow> a = b"
proof (induction a arbitrary: b)
  case Nil
  then show ?case by (cases b) (simp_all add: bytes_hex_def hex_byte_def)
next
  case (Cons x xs)
  show ?case
  proof (cases b)
    case Nil
    with Cons.prems show ?thesis by (simp add: bytes_hex_def hex_byte_def)
  next
    case (Cons y ys)
    with Cons.prems have "hex_byte x @ bytes_hex xs = hex_byte y @ bytes_hex ys"
      by (simp add: bytes_hex_def)
    moreover have "length (hex_byte x) = length (hex_byte y)"
      by (simp add: hex_byte_def)
    ultimately have "hex_byte x = hex_byte y" and "bytes_hex xs = bytes_hex ys"
      by simp_all
    with Cons.IH Cons show ?thesis by (simp add: hex_byte_inj)
  qed
qed

lemma digit_inj:
  assumes "i < 10" and "j < 10" and "''0123456789'' ! i = ''0123456789'' ! j"
  shows "i = j"
proof -
  have "distinct ''0123456789''" by simp
  moreover have "length ''0123456789'' = 10" by simp
  ultimately show ?thesis
    using assms by (metis nth_eq_iff_index_eq)
qed

lemma str_nat_nonempty: "str_nat n \<noteq> []"
  by (subst str_nat.simps) simp

lemma str_nat_inj: "str_nat n = str_nat m \<Longrightarrow> n = m"
proof (induction n arbitrary: m rule: str_nat.induct)
  case (1 n)
  show ?case
  proof (cases "n < 10")
    case n: True
    show ?thesis
    proof (cases "m < 10")
      case True
      with n "1.prems" show ?thesis
        by (simp add: str_nat.simps [of n] str_nat.simps [of m] digit_inj)
    next
      case False
      with n "1.prems" str_nat_nonempty [of "m div 10"] show ?thesis
        by (simp add: str_nat.simps [of n] str_nat.simps [of m])
    qed
  next
    case n: False
    show ?thesis
    proof (cases "m < 10")
      case True
      with n "1.prems" str_nat_nonempty [of "n div 10"] show ?thesis
        by (simp add: str_nat.simps [of n] str_nat.simps [of m])
    next
      case False
      with n "1.prems" have "str_nat (n div 10) = str_nat (m div 10)"
        and "''0123456789'' ! (n mod 10) = ''0123456789'' ! (m mod 10)"
        by (simp_all add: str_nat.simps [of n] str_nat.simps [of m])
      with n "1.IH" have "n div 10 = m div 10" and "n mod 10 = m mod 10"
        by (auto intro: digit_inj)
      then show ?thesis by (metis div_mult_mod_eq)
    qed
  qed
qed

lemma str_byte_inj: "str_byte a = str_byte b \<Longrightarrow> a = b"
  by (simp add: str_byte_def word_unat_eq_iff str_nat_inj)

subsection \<open>Frames with a known prefix\<close>

text \<open>
  C1: a response of at least 14 bytes that starts with \<open>FE 0A 61 02\<close>,
  \<open>FE 0E 61 02\<close> or \<open>FE 10 61 02\<close> is reported as CC2652, CC2530 or CC2538
  respectively, and the lines printed carry the transport version from byte 4, the
  product ID from byte 5, the major, minor and maintenance release from bytes 6, 7 and 8,
  and the revision from bytes 9 to 13. With the debug flag the two hex dumps come first;
  bytes beyond the fourteenth are reported after the fields.
\<close>

theorem decode_known_prefix:
  assumes "14 \<le> length r"
    and "(p, chip) \<in> {([0xFE, 0x0A, 0x61, 0x02], ''CC2652''),
                       ([0xFE, 0x0E, 0x61, 0x02], ''CC2530''),
                       ([0xFE, 0x10, 0x61, 0x02], ''CC2538'')}"
    and "take 4 r = p"
  shows "process_version_response self r tr =
    (Inr (), tr
     @ (if debug self
        then [Print (''Raw response received: '' @ bytes_hex r),
              Print (''Parsing response: '' @ bytes_hex r)]
        else [])
     @ [Print (''SYS Version response detected for '' @ chip @ '':''),
        Print (''Transport Version: '' @ str_byte (r ! 4)),
        Print (''Product ID: '' @ str_byte (r ! 5) @ '' '' @ em_dash @ '' '' @ chip @ '' Zigbee Module.''),
        Print (''Major Release: '' @ str_byte (r ! 6)),
        Print (''Minor Release: '' @ str_byte (r ! 7)),
        Print (''Maintenance Release: '' @ str_byte (r ! 8)),
        Print (''Stack Version: '' @ str_byte (r ! 6) @ ''.'' @ str_byte (r ! 7) @ ''.'' @ str_byte (r ! 8)
           @ '' '' @ em_dash @ '' Indicates Z-Stack compatibility.''),
        Print (''Revision: '' @ bytes_hex [r ! 9, r ! 10, r ! 11, r ! 12, r ! 13] @ '' '' @ em_dash
           @ '' Firmware Revision Details.'')]
     @ (if 14 < length r
        then [Print ''Additional asynchronous data detected. Skipping:'',
              Print (''Raw data: '' @ bytes_hex (drop 14 r))]
        else []))"
proof -
  have ne: "r \<noteq> []" using assms(1) by auto
  from assms(2) consider
      "p = [0xFE, 0x0A, 0x61, 0x02]" "chip = ''CC2652''"
    | "p = [0xFE, 0x0E, 0x61, 0x02]" "chip = ''CC2530''"
    | "p = [0xFE, 0x10, 0x61, 0x02]" "chip = ''CC2538''"
    by auto
  then show ?thesis
  proof cases
    case 1
    then show ?thesis
      using assms(3) ne
      by (simp add: process_version_response_def startswith_4 process_version_long [OF assms(1)]
          py_then_def py_bind_def py_when_def print_line_def emit_def ret_def slice_bytes_from_def)
  next
    case 2
    then show ?thesis
      using assms(3) ne
      by (simp add: process_version_response_def startswith_4 process_version_long [OF assms(1)]
          py_then_def py_bind_def py_when_def print_line_def emit_def ret_def slice_bytes_from_def)
  next
    case 3
    then show ?thesis
      using assms(3) ne
      by (simp add: process_version_response_def startswith_4 process_version_long [OF assms(1)]
          py_then_def py_bind_def py_when_def print_line_def emit_def ret_def slice_bytes_from_def)
  qed
qed


theorem decode_known_prefix_witness:
  "process_version_response
     \<lparr>port = ''/dev/ttyMOD4'', baudrate = 115200, timeout = 1, custom_command = None,
      debug = False\<rparr>
     [0xFE, 0x0A, 0x61, 0x02, 0x02, 0x05, 0x02, 0x01, 0x03, 0xAA, 0xBB, 0xCC, 0xDD, 0xEE] [] =
   (Inr (),
    [Print ''SYS Version response detected for CC2652:'',
     Print ''Transport Version: 2'',
     Print (''Product ID: 5 '' @ em_dash @ '' CC2652 Zigbee Module.''),
     Print ''Major Release: 2'',
     Print ''Minor Release: 1'',
     Print ''Maintenance Release: 3'',
     Print (''Stack Version: 2.1.3 '' @ em_dash @ '' Indicates Z-Stack compatibility.''),
     Print (''Revision: aabbccddee '' @ em_dash @ '' Firmware Revision Details.'')])"
  using decode_known_prefix
    [of "[0xFE, 0x0A, 0x61, 0x02, 0x02, 0x05, 0x02, 0x01, 0x03, 0xAA, 0xBB, 0xCC, 0xDD, 0xEE]"
        "[0xFE, 0x0A, 0x61, 0x02]" "''CC2652''"
        "\<lparr>port = ''/dev/ttyMOD4'', baudrate = 115200, timeout = 1, custom_command = None,
          debug = False\<rparr>" "[]"]
  by (simp add: render_simps)

lemma process_version_response_structure:
  "process_version_response self r tr =
    (Inr (), tr
     @ (if debug self then [Print (''Raw response received: '' @ bytes_hex r)] else [])
     @ (if r = [] then [Print ''No response received.'']
        else (if startswith r [0xFE, 0x0A, 0x61, 0x02]
                then snd (process_version self r ''CC2652'' [])
              else if startswith r [0xFE, 0x0E, 0x61, 0x02]
                then snd (process_version self r ''CC2530'' [])
              else if startswith r [0xFE, 0x10, 0x61, 0x02]
                then snd (process_version self r ''CC2538'' [])
              else [Print ''Unknown chip detected. Skipping specialized parsing.'',
                    Print (''Raw response: '' @ bytes_hex r)])
             @ (if 14 < length r
                then [Print ''Additional asynchronous data detected. Skipping:'',
                      Print (''Raw data: '' @ bytes_hex (drop 14 r))]
                else [])))"
proof -
  define out where "out chip = snd (process_version self r chip [])" for chip
  have pv: "process_version self r chip t = (Inr (), t @ out chip)" for chip t
    unfolding out_def by (rule process_version_from_empty)
  have "process_version_response self r tr =
    (Inr (), tr
     @ (if debug self then [Print (''Raw response received: '' @ bytes_hex r)] else [])
     @ (if r = [] then [Print ''No response received.'']
        else (if startswith r [0xFE, 0x0A, 0x61, 0x02] then out ''CC2652''
              else if startswith r [0xFE, 0x0E, 0x61, 0x02] then out ''CC2530''
              else if startswith r [0xFE, 0x10, 0x61, 0x02] then out ''CC2538''
              else [Print ''Unknown chip detected. Skipping specialized parsing.'',
                    Print (''Raw response: '' @ bytes_hex r)])
             @ (if 14 < length r
                then [Print ''Additional asynchronous data detected. Skipping:'',
                      Print (''Raw data: '' @ bytes_hex (drop 14 r))]
                else [])))"
    unfolding process_version_response_def py_then_def py_bind_def py_when_def print_line_def
      emit_def ret_def slice_bytes_from_def py_block.simps
    by (simp add: pv)
  then show ?thesis unfolding out_def .
qed

subsection \<open>Trailing data\<close>

text \<open>
  C2: whatever the prefix and the debug flag, decoding a response of more than 14 bytes
  returns normally and its output ends with the report of the trailing data, which
  shows exactly the bytes from offset 14 to the end.
\<close>

theorem trailing_data_surfaced:
  assumes "14 < length r"
  shows "\<exists>pre. process_version_response self r tr =
    (Inr (), tr @ pre
       @ [Print ''Additional asynchronous data detected. Skipping:'',
          Print (''Raw data: '' @ bytes_hex (drop 14 r))])"
proof -
  from assms have "r \<noteq> []" by auto
  with assms show ?thesis
    by (simp add: process_version_response_structure [of self r tr])
qed

theorem trailing_data_surfaced_witness:
  "\<exists>pre. process_version_response
     \<lparr>port = ''/dev/ttyMOD4'', baudrate = 115200, timeout = 1, custom_command = None,
      debug = False\<rparr>
     [0xFE, 0x0A, 0x61, 0x02, 0x02, 0x05, 0x02, 0x01, 0x03, 0xAA, 0xBB, 0xCC, 0xDD, 0xEE,
      0x11, 0x22] [] =
   (Inr (), pre @ [Print ''Additional asynchronous data detected. Skipping:'',
                   Print ''Raw data: 1122''])"
  using trailing_data_surfaced
    [of "[0xFE, 0x0A, 0x61, 0x02, 0x02, 0x05, 0x02, 0x01, 0x03, 0xAA, 0xBB, 0xCC, 0xDD, 0xEE,
          0x11, 0x22]"
        "\<lparr>port = ''/dev/ttyMOD4'', baudrate = 115200, timeout = 1, custom_command = None,
          debug = False\<rparr>" "[]"]
  by (simp add: render_simps)

subsection \<open>Matched frames shorter than 14 bytes\<close>

text \<open>
  The field reads of \<open>process_version\<close> are guarded only by the \<open>try\<close> around them.
  A matched frame of at most 8 bytes fails at one of the index reads and is reported
  with the parse-error line. From 9 bytes on every index read succeeds, and the slice
  \<open>response[9:14]\<close> never raises: the fields are printed, with whatever is left of the
  revision, and no error is reported.
\<close>

lemma process_version_too_short:
  assumes "length r \<le> 8"
  shows "process_version self r chip tr =
    (Inr (), tr
      @ (if debug self then [Print (''Parsing response: '' @ bytes_hex r)] else [])
      @ [Print ''Error while parsing the response: index out of range''])"
  using assms by (simp add: process_version_def py_simps)

lemma process_version_truncated:
  assumes "9 \<le> length r"
  shows "process_version self r chip tr =
    (Inr (), tr @ (if debug self then [Print (''Parsing response: '' @ bytes_hex r)] else []) @
     [Print (''SYS Version response detected for '' @ chip @ '':''),
      Print (''Transport Version: '' @ str_byte (r ! 4)),
      Print (''Product ID: '' @ str_byte (r ! 5) @ '' '' @ em_dash @ '' '' @ chip @ '' Zigbee Module.''),
      Print (''Major Release: '' @ str_byte (r ! 6)),
      Print (''Minor Release: '' @ str_byte (r ! 7)),
      Print (''Maintenance Release: '' @ str_byte (r ! 8)),
      Print (''Stack Version: '' @ str_byte (r ! 6) @ ''.'' @ str_byte (r ! 7) @ ''.'' @ str_byte (r ! 8)
           @ '' '' @ em_dash @ '' Indicates Z-Stack compatibility.''),
      Print (''Revision: '' @ bytes_hex (take 5 (drop 9 r)) @ '' '' @ em_dash @ '' Firmware Revision Details.'')])"
  using assms by (simp add: process_version_def py_simps)

text \<open>
  C3 (a matched frame of fewer than 14 bytes is reported as a decode error): the code
  does not do so for a frame of 9 to 13 bytes. A 10-byte frame with the CC2652 prefix is
  printed as a version response whose revision is the single byte \<open>aa\<close>; the line
  \<open>Error while parsing the response\<close> is absent.
\<close>

theorem short_matched_frame_printed_without_error:
  "process_version_response
     \<lparr>port = ''/dev/ttyMOD4'', baudrate = 115200, timeout = 1, custom_command = None,
      debug = False\<rparr>
     [0xFE, 0x0A, 0x61, 0x02, 0x02, 0x05, 0x02, 0x01, 0x03, 0xAA] [] =
   (Inr (),
    [Print ''SYS Version response detected for CC2652:'',
     Print ''Transport Version: 2'',
     Print (''Product ID: 5 '' @ em_dash @ '' CC2652 Zigbee Module.''),
     Print ''Major Release: 2'',
     Print ''Minor Release: 1'',
     Print ''Maintenance Release: 3'',
     Print (''Stack Version: 2.1.3 '' @ em_dash @ '' Indicates Z-Stack compatibility.''),
     Print (''Revision: aa '' @ em_dash @ '' Firmware Revision Details.'')])"
  by (simp add: process_version_response_def process_version_def startswith_def py_simps
      render_simps)

subsection \<open>Unknown prefixes and empty input\<close>

text \<open>
  C4: a non-empty response whose first four bytes are none of the three known prefixes
  (a response of fewer than four bytes included) is reported as an unknown chip together
  with the hex dump of the whole response, and the decoder returns normally.
\<close>

theorem unrecognized_prefix:
  assumes "r \<noteq> []"
    and "take 4 r \<notin> {[0xFE, 0x0A, 0x61, 0x02], [0xFE, 0x0E, 0x61, 0x02], [0xFE, 0x10, 0x61, 0x02]}"
  shows "process_version_response self r tr =
    (Inr (), tr
     @ (if debug self then [Print (''Raw response received: '' @ bytes_hex r)] else [])
     @ [Print ''Unknown chip detected. Skipping specialized parsing.'',
        Print (''Raw response: '' @ bytes_hex r)]
     @ (if 14 < length r
        then [Print ''Additional asynchronous data detected. Skipping:'',
              Print (''Raw data: '' @ bytes_hex (drop 14 r))]
        else []))"
  using assms by (simp add: process_version_response_structure [of self r tr] startswith_4)

theorem unrecognized_prefix_witness:
  "process_version_response
     \<lparr>port = ''/dev/ttyMOD4'', baudrate = 115200, timeout = 1, custom_command = None,
      debug = False\<rparr>
     [0x00, 0x01, 0x02, 0x03] [] =
   (Inr (),
    [Print ''Unknown chip detected. Skipping specialized parsing.'',
     Print ''Raw response: 00010203''])"
  using unrecognized_prefix
    [of "[0x00, 0x01, 0x02, 0x03]"
        "\<lparr>port = ''/dev/ttyMOD4'', baudrate = 115200, timeout = 1, custom_command = None,
          debug = False\<rparr>" "[]"]
  by (simp add: render_simps)

text \<open>
  C5: decoding the empty byte string returns normally and prints \<open>No response
  received.\<close> and nothing else (after the hex dump of the empty string when the debug
  flag is set): no chip report, no field, no trailing-data report.
\<close>

theorem empty_input_no_response:
  "process_version_response self [] tr =
    (Inr (), tr
     @ (if debug self then [Print ''Raw response received: ''] else [])
     @ [Print ''No response received.''])"
  by (simp add: process_version_response_structure [of self "[]" tr] bytes_hex_def)

theorem empty_input_no_response_witness:
  "process_version_response
     \<lparr>port = ''/dev/ttyMOD4'', baudrate = 115200, timeout = 1, custom_command = None,
      debug = True\<rparr> [] [] =
   (Inr (), [Print ''Raw response received: '', Print ''No response received.''])"
  using empty_input_no_response
    [of "\<lparr>port = ''/dev/ttyMOD4'', baudrate = 115200, timeout = 1, custom_command = None,
          debug = True\<rparr>" "[]"]
  by simp

subsection \<open>The debug flag\<close>

lemma process_version_debug:
  "snd (process_version (self\<lparr>debug := True\<rparr>) r chip []) =
     Print (''Parsing response: '' @ bytes_hex r)
       # snd (process_version (self\<lparr>debug := False\<rparr>) r chip [])"
  by (simp add: process_version_def py_simps)

text \<open>
  C10: with the debug flag set the decoder prints the hex dump of the raw response (and,
  for a known prefix, the hex dump of the response being parsed) and then exactly the
  output it produces without the flag; it returns normally in both cases.
\<close>

theorem debug_flag_only_adds_lines:
  "process_version_response (self\<lparr>debug := True\<rparr>) r tr =
    (Inr (), tr
      @ [Print (''Raw response received: '' @ bytes_hex r)]
      @ (if r \<noteq> [] \<and> take 4 r \<in> {[0xFE, 0x0A, 0x61, 0x02], [0xFE, 0x0E, 0x61, 0x02],
                                        [0xFE, 0x10, 0x61, 0x02]}
         then [Print (''Parsing response: '' @ bytes_hex r)] else [])
      @ snd (process_version_response (self\<lparr>debug := False\<rparr>) r []))
   \<and> fst (process_version_response (self\<lparr>debug := False\<rparr>) r tr) = Inr ()"
  by (simp add: process_version_response_structure [of "self\<lparr>debug := True\<rparr>" r tr]
      process_version_response_structure [of "self\<lparr>debug := False\<rparr>" r "[]"]
      process_version_response_structure [of "self\<lparr>debug := False\<rparr>" r tr]
      process_version_debug startswith_4)


theorem debug_flag_only_adds_lines_witness:
  "process_version_response
     \<lparr>port = ''/dev/ttyMOD4'', baudrate = 115200, timeout = 1, custom_command = None,
      debug = True\<rparr>
     [0xFE, 0x0E, 0x61, 0x02, 0x02] [] =
   (Inr (),
    [Print ''Raw response received: fe0e610202'',
     Print ''Parsing response: fe0e610202'']
    @ snd (process_version_response
        \<lparr>port = ''/dev/ttyMOD4'', baudrate = 115200, timeout = 1, custom_command = None,
         debug = False\<rparr>
        [0xFE, 0x0E, 0x61, 0x02, 0x02] []))"
  using debug_flag_only_adds_lines
    [of "\<lparr>port = ''/dev/ttyMOD4'', baudrate = 115200, timeout = 1, custom_command = None,
          debug = False\<rparr>" "[0xFE, 0x0E, 0x61, 0x02, 0x02]" "[]"]
  by (simp add: render_simps)

text \<open>
  The exchange reads the flag in one place, to print the command before it is written:
  the response it returns is the same with and without the flag.
\<close>

lemma send_command_debug:
  "fst (send_command (self\<lparr>debug := True\<rparr>) e c tr) =
   fst (send_command (self\<lparr>debug := False\<rparr>) e c tr)"
  apply (cases "serial_open e"; cases "serial_flock e"; cases "serial_reset_input_buffer e";
         cases "serial_write e c"; cases "serial_in_waiting e"; cases "serial_close e")
  apply (simp_all add: send_command_def py_simps split: exception.splits sum.splits)
  done

subsection \<open>The port check and the exchange\<close>

lemma written_append: "written (xs @ ys) = written xs @ written ys"
  by (induction xs rule: written.induct) simp_all

lemma written_Prints: "written (map Print ls) = []"
  by (induction ls) simp_all

lemma written_only_prints_popens:
  "set new \<subseteq> range Print \<union> range Popen \<Longrightarrow> written new = []"
  by (induction new rule: written.induct) auto

lemma get_process_name_by_pid_run:
  "get_process_name_by_pid e pid tr =
     (Inr (case popen_read e (''ps -p '' @ pid @ '' -o comm='') of
             Inl ex \<Rightarrow> None | Inr out \<Rightarrow> Some (strip out)),
      tr @ [Popen (''ps -p '' @ pid @ '' -o comm='')])"
  by (simp add: get_process_name_by_pid_def py_simps split: sum.splits)

lemma py_map_get_process_name:
  "py_map (get_process_name_by_pid e) pids tr =
     (Inr (map (\<lambda>pid. case popen_read e (''ps -p '' @ pid @ '' -o comm='') of
                        Inl ex \<Rightarrow> None | Inr out \<Rightarrow> Some (strip out)) pids),
      tr @ map (\<lambda>pid. Popen (''ps -p '' @ pid @ '' -o comm='')) pids)"
  by (induction pids arbitrary: tr)
     (simp_all add: get_process_name_by_pid_run py_bind_def ret_def)

lemma check_port_availability_error:
  assumes "popen_read e (''fuser '' @ port self) = Inl ex"
  shows "check_port_availability self e tr =
     (Inr False, tr @ [Popen (''fuser '' @ port self),
                       Print (''Error checking port availability: '' @ str_exception ex)])"
  using assms by (simp add: check_port_availability_def py_simps)

lemma check_port_availability_free:
  assumes "popen_read e (''fuser '' @ port self) = Inr out" and "strip out = []"
  shows "check_port_availability self e tr = (Inr True, tr @ [Popen (''fuser '' @ port self)])"
  using assms by (simp add: check_port_availability_def py_simps)

lemma check_port_availability_occupied:
  assumes "popen_read e (''fuser '' @ port self) = Inr out" and "strip out \<noteq> []"
  shows "check_port_availability self e tr =
     (Inr False, tr @ [Popen (''fuser '' @ port self)]
        @ map (\<lambda>pid. Popen (''ps -p '' @ pid @ '' -o comm='')) (split (strip out))
        @ [Print (''The port '' @ port self @ '' is occupied by process ID(s): ''
             @ join '', '' (split (strip out)) @ '' (''
             @ join '', '' (filter_none (map (\<lambda>pid.
                  case popen_read e (''ps -p '' @ pid @ '' -o comm='') of
                    Inl ex \<Rightarrow> None | Inr out \<Rightarrow> Some (strip out)) (split (strip out))))
             @ '')'')]
        @ (if ''node'' \<in> set (filter_none (map (\<lambda>pid.
                  case popen_read e (''ps -p '' @ pid @ '' -o comm='') of
                    Inl ex \<Rightarrow> None | Inr out \<Rightarrow> Some (strip out)) (split (strip out))))
           then [Print ''The process 'node' is running on the port and might be related to zigbee2mqtt.'',
                 Print ''Please try stopping the zigbee2mqtt service using: systemctl stop zigbee2mqtt'']
           else [Print ''Please stop the process or release the port manually.'']))"
  using assms
  by (simp add: check_port_availability_def py_map_get_process_name py_bind_def py_then_def
      try_except_def lib_call_def emit_def print_line_def ret_def)

text \<open>
  The exchange never raises: every failure of the serial port is caught, reported and
  turned into the result \<open>None\<close>. A response it returns is not empty. It writes the
  command once if the port was opened, locked and flushed, and writes nothing otherwise.
\<close>

lemma send_command_summary:
  "\<exists>res new. send_command self e c tr = (Inr res, tr @ new) \<and> res \<noteq> Some []
     \<and> written new = (if serial_open e = Inr () \<and> serial_flock e = Inr ()
                      \<and> serial_reset_input_buffer e = Inr () then [c] else [])"
  apply (cases "serial_open e"; cases "serial_flock e"; cases "serial_reset_input_buffer e";
         cases "serial_write e c"; cases "serial_in_waiting e"; cases "serial_close e")
  apply (simp_all add: send_command_def py_simps written_append split: exception.splits sum.splits)
  done

lemma process_version_written: "written (snd (process_version self r chip [])) = []"
  by (simp add: process_version_def py_simps)

lemma process_version_response_written:
  "\<exists>out. process_version_response self r tr = (Inr (), tr @ out) \<and> written out = []"
  by (simp add: process_version_response_structure [of self r tr] written_append
      process_version_written)

lemma check_blocked:
  assumes "case popen_read e (''fuser '' @ port self) of
             Inl ex \<Rightarrow> True | Inr out \<Rightarrow> strip out \<noteq> []"
  shows "\<exists>new. check self e tr = (Inl (SystemExit 1), tr @ new)
           \<and> set new \<subseteq> range Print \<union> range Popen"
proof (cases "popen_read e (''fuser '' @ port self)")
  case (Inl ex)
  then show ?thesis
    by (simp add: check_def check_port_availability_error py_simps)
next
  case (Inr out)
  with assms have "strip out \<noteq> []" by simp
  from check_port_availability_occupied [OF Inr this, of tr]
  show ?thesis
    by (auto simp add: check_def py_simps)
qed

lemma check_free:
  assumes "popen_read e (''fuser '' @ port self) = Inr out" and "strip out = []"
  shows "\<exists>new. check self e tr = (Inr (), tr @ new)
           \<and> written new = (if serial_open e = Inr () \<and> serial_flock e = Inr ()
                               \<and> serial_reset_input_buffer e = Inr ()
                             then [version_command] else [])"
proof -
  let ?t = "tr @ [Popen (''fuser '' @ port self)]"
  obtain res new where sc: "send_command self e version_command ?t = (Inr res, ?t @ new)"
    and ne: "res \<noteq> Some []"
    and wr: "written new = (if serial_open e = Inr () \<and> serial_flock e = Inr ()
                               \<and> serial_reset_input_buffer e = Inr ()
                             then [version_command] else [])"
    using send_command_summary [of self e version_command ?t] by blast
  show ?thesis
  proof (cases res)
    case None
    with sc wr show ?thesis
      by (simp add: check_def check_port_availability_free [OF assms] py_simps written_append)
  next
    case (Some r)
    obtain out' where pv: "process_version_response self r (?t @ new) = (Inr (), (?t @ new) @ out')"
      and wo: "written out' = []"
      using process_version_response_written [of self r "?t @ new"] by blast
    from Some ne have "r \<noteq> []" by simp
    with Some sc wr pv wo show ?thesis
      by (simp add: check_def check_port_availability_free [OF assms] py_simps written_append)
  qed
qed

lemma main_run:
  "main a e tr =
     check \<lparr>port = arg_port a, baudrate = arg_baudrate a, timeout = arg_timeout a,
            custom_command = arg_custom_command a, debug = arg_debug a\<rparr> e
       (if arg_reset a then tr @ [Print ''Sending reset command...''] else tr)"
  by (simp add: main_def py_simps)

subsection \<open>An occupied port\<close>

text \<open>
  C7: when \<open>fuser\<close> fails or names a process that holds the port, the check ends with
  \<open>sys.exit(1)\<close> and everything it has done is to run shell commands (\<open>fuser\<close>,
  \<open>ps\<close>) and print lines: the serial port is not opened, written or read.
\<close>

theorem occupied_port_no_transport_io:
  assumes "case popen_read e (''fuser '' @ port self) of
             Inl ex \<Rightarrow> True | Inr out \<Rightarrow> strip out \<noteq> []"
  shows "\<exists>new. check self e tr = (Inl (SystemExit 1), tr @ new)
           \<and> set new \<subseteq> range Print \<union> range Popen"
  using assms by (rule check_blocked)

theorem occupied_port_no_transport_io_witness:
  "(case popen_read (example_env ''1234'' []) (''fuser '' @ port example_checker) of
      Inl ex \<Rightarrow> True | Inr out \<Rightarrow> strip out \<noteq> [])
   \<and> (\<exists>new. check example_checker (example_env ''1234'' []) [] = (Inl (SystemExit 1), new)
          \<and> set new \<subseteq> range Print \<union> range Popen)"
proof -
  have h: "case popen_read (example_env ''1234'' []) (''fuser '' @ port example_checker) of
      Inl ex \<Rightarrow> True | Inr out \<Rightarrow> strip out \<noteq> []"
    by (simp add: example_checker_def example_env_def string_simps)
  from occupied_port_no_transport_io [OF h, of "[]"] h show ?thesis by simp
qed

text \<open>
  The run of the check when \<open>fuser\<close> reports process 1234 and \<open>ps\<close> names it
  \<open>node\<close>: the hint about zigbee2mqtt is printed.
\<close>

lemma scenario_5:
  "check example_checker (example_env ''1234'' []) [] =
     (Inl (SystemExit 1),
      [Popen ''fuser /dev/ttyMOD4'',
       Popen ''ps -p 1234 -o comm='',
       Print ''The port /dev/ttyMOD4 is occupied by process ID(s): 1234 (node)'',
       Print ''The process 'node' is running on the port and might be related to zigbee2mqtt.'',
       Print ''Please try stopping the zigbee2mqtt service using: systemctl stop zigbee2mqtt''])"
  by (simp add: check_def check_port_availability_def get_process_name_by_pid_def
      example_checker_def example_env_def string_simps py_simps)

subsection \<open>The exit status\<close>

text \<open>
  C6: once the command line is parsed, the script ends with status 1 if \<open>fuser\<close>
  fails or reports a process on the port, and with status 0 in every other case, whatever
  the serial port and the module do.
\<close>

theorem exit_code_one_iff_port_check_fails:
  "fst (run_script a e) =
     (case popen_read e (''fuser '' @ arg_port a) of
        Inl ex \<Rightarrow> 1
      | Inr out \<Rightarrow> if strip out = [] then 0 else 1)"
proof -
  let ?self = "\<lparr>port = arg_port a, baudrate = arg_baudrate a, timeout = arg_timeout a,
            custom_command = arg_custom_command a, debug = arg_debug a\<rparr>"
  let ?t = "if arg_reset a then [Print ''Sending reset command...''] else []"
  have m: "main a e [] = check ?self e ?t"
    by (simp add: main_run)
  show ?thesis
  proof (cases "case popen_read e (''fuser '' @ port ?self) of
             Inl ex \<Rightarrow> True | Inr out \<Rightarrow> strip out \<noteq> []")
    case True
    from check_blocked [OF True, of ?t] obtain new
      where "check ?self e ?t = (Inl (SystemExit 1), ?t @ new)" by blast
    with True m show ?thesis
      by (cases "popen_read e (''fuser '' @ arg_port a)") (simp_all add: run_script_def)
  next
    case False
    then obtain out where o: "popen_read e (''fuser '' @ port ?self) = Inr out" "strip out = []"
      by (auto split: sum.splits)
    from check_free [OF o, of ?t] obtain new
      where "check ?self e ?t = (Inr (), ?t @ new)" by blast
    with o m show ?thesis
      by (simp add: run_script_def)
  qed
qed

theorem exit_code_one_iff_port_check_fails_witness:
  "fst (run_script example_args (example_env ''1234'' [])) = 1
   \<and> fst (run_script example_args (example_env [] [0x00, 0x01, 0x02, 0x03])) = 0"
  using exit_code_one_iff_port_check_fails [of example_args "example_env ''1234'' []"]
    exit_code_one_iff_port_check_fails [of example_args "example_env [] [0x00, 0x01, 0x02, 0x03]"]
  by (simp add: example_args_def example_env_def string_simps)

subsection \<open>The command written\<close>

text \<open>
  C8: a run of the script writes to the serial port at most once, and what it writes is
  the five bytes \<open>FE 00 21 02 23\<close>. The write happens exactly when the port is free
  and was opened, locked and flushed without error.
\<close>

theorem single_version_command_written:
  "written (snd (run_script a e)) =
     (if (\<exists>out. popen_read e (''fuser '' @ arg_port a) = Inr out \<and> strip out = [])
         \<and> serial_open e = Inr () \<and> serial_flock e = Inr ()
         \<and> serial_reset_input_buffer e = Inr ()
      then [[0xFE, 0x00, 0x21, 0x02, 0x23]] else [])"
proof -
  let ?self = "\<lparr>port = arg_port a, baudrate = arg_baudrate a, timeout = arg_timeout a,
            custom_command = arg_custom_command a, debug = arg_debug a\<rparr>"
  let ?t = "if arg_reset a then [Print ''Sending reset command...''] else []"
  have m: "main a e [] = check ?self e ?t"
    by (simp add: main_run)
  have wt: "written ?t = []" by simp
  show ?thesis
  proof (cases "case popen_read e (''fuser '' @ port ?self) of
             Inl ex \<Rightarrow> True | Inr out \<Rightarrow> strip out \<noteq> []")
    case True
    from check_blocked [OF True, of ?t] obtain new
      where c: "check ?self e ?t = (Inl (SystemExit 1), ?t @ new)"
        and n: "set new \<subseteq> range Print \<union> range Popen" by blast
    from n have wn: "written new = []" by (rule written_only_prints_popens)
    from True have "\<not> (\<exists>out. popen_read e (''fuser '' @ arg_port a) = Inr out \<and> strip out = [])"
      by (auto split: sum.splits)
    with m c wt wn show ?thesis
      by (simp add: run_script_def written_append)
  next
    case False
    then obtain out where o: "popen_read e (''fuser '' @ port ?self) = Inr out" "strip out = []"
      by (auto split: sum.splits)
    from check_free [OF o, of ?t] obtain new
      where c: "check ?self e ?t = (Inr (), ?t @ new)"
        and w: "written new = (if serial_open e = Inr () \<and> serial_flock e = Inr ()
                               \<and> serial_reset_input_buffer e = Inr ()
                             then [version_command] else [])" by blast
    with o m wt show ?thesis
      by (simp add: run_script_def written_append version_command_def)
  qed
qed

theorem single_version_command_written_witness:
  "written (snd (run_script example_args (example_env [] [0x00, 0x01, 0x02, 0x03]))) =
     [[0xFE, 0x00, 0x21, 0x02, 0x23]]
   \<and> written (snd (run_script example_args (example_env ''1234'' [0x00, 0x01, 0x02, 0x03]))) = []"
  using single_version_command_written [of example_args "example_env [] [0x00, 0x01, 0x02, 0x03]"]
    single_version_command_written [of example_args "example_env ''1234'' [0x00, 0x01, 0x02, 0x03]"]
  by (simp add: example_args_def example_env_def string_simps)

end
